theory Spec2Isabelle
  imports Complex_Main "HOL-Library.AList" "HOL-Library.Sublist" "HOL-Library.Multiset"
    "HOL-Library.Product_Lexorder"
begin

section \<open>Data model (app/models/paper.py)\<close>

text \<open>
  A Python \<open>datetime\<close> without time zone is the tuple of its calendar fields, compared
  field by field from the year down. The store only ever creates such values
  (\<open>datetime.utcnow()\<close>, \<open>datetime(2024, 1, 15)\<close>); time-zone aware values are outside
  this model.
\<close>

record datetime =
  year :: nat
  month :: nat
  day :: nat
  hour :: nat
  minute :: nat
  second :: nat
  microsecond :: nat

text \<open>The key by which two datetimes are compared.\<close>

definition dt_key :: "datetime \<Rightarrow> nat \<times> nat \<times> nat \<times> nat \<times> nat \<times> nat \<times> nat" where
  "dt_key d = (year d, month d, day d, hour d, minute d, second d, microsecond d)"

record author =
  name :: string
  author_arxiv_id :: "string option"

record paper_metadata =
  arxiv_id :: string
  title :: string
  authors :: "author list"
  abstract :: string
  published_date :: datetime
  updated_date :: "datetime option"
  pdf_url :: string
  primary_category :: string
  categories :: "string list"
  comment :: "string option"
  journal_ref :: "string option"
  doi :: "string option"

text \<open>
  \<open>relevance_score\<close> is a Python float. It is only stored and written back, never
  computed with, so it is modelled as an exact number; the non-finite floats are outside
  this model.
\<close>

record ai_analysis =
  summary :: string
  key_findings :: "string list"
  methodology :: "string option"
  strengths :: "string list"
  limitations :: "string list"
  relevance_score :: "real option"
  generated_at :: datetime

record chat_message =
  role :: string
  content :: string
  timestamp :: datetime

record paper =
  metadata :: paper_metadata
  pdf_path :: "string option"
  extracted_text :: "string option"
  ai_analysis :: "ai_analysis option"
  chat_history :: "chat_message list"
  processed :: bool
  created_at :: datetime
  updated_at :: "datetime option"

text \<open>
  \<open>Paper(metadata=metadata)\<close>: every other field takes its declared default, and
  \<open>created_at\<close> the clock reading \<open>now\<close>.
\<close>

definition new_paper :: "datetime \<Rightarrow> paper_metadata \<Rightarrow> paper" where
  "new_paper now m =
     \<lparr>metadata = m, pdf_path = None, extracted_text = None, ai_analysis = None,
      chat_history = [], processed = False, created_at = now, updated_at = None\<rparr>"

section \<open>Python built-ins used by the code\<close>

datatype exn =
  ValueError
  | AttributeError
  | ValidationError
  | ServiceError string

text \<open>
  \<open>xs[a:b]\<close>: a negative bound counts from the end, and both bounds are clipped to the
  list.
\<close>

definition py_slice :: "'a list \<Rightarrow> int \<Rightarrow> int \<Rightarrow> 'a list" where
  "py_slice xs a b =
     (let n = int (length xs);
          lo = (if a < 0 then max (a + n) 0 else min a n);
          hi = (if b < 0 then max (b + n) 0 else min b n)
      in take (nat (hi - lo)) (drop (nat lo) xs))"

text \<open>The truth value of an \<open>Optional[str]\<close>: neither \<open>None\<close> nor the empty string.\<close>

definition truthy :: "string option \<Rightarrow> bool" where
  "truthy x = (case x of None \<Rightarrow> False | Some v \<Rightarrow> v \<noteq> [])"

text \<open>
  \<open>str.lower()\<close> on the letters A to Z; the model leaves every other character as it is.
\<close>

definition lower_char :: "char \<Rightarrow> char" where
  "lower_char c =
     (let v = (of_char c :: nat) in if 65 \<le> v \<and> v \<le> 90 then char_of (v + 32) else c)"

definition lower :: "string \<Rightarrow> string" where
  "lower s = map lower_char s"

text \<open>\<open>sub in s\<close> on strings: \<open>sub\<close> occurs in \<open>s\<close> as a contiguous piece.\<close>

definition py_in :: "string \<Rightarrow> string \<Rightarrow> bool" where
  "py_in sub s = sublist sub s"

text \<open>
  \<open>list.sort(key=f, reverse=True)\<close>: the list is reversed, sorted stably by ascending key
  and reversed again, so equal keys keep their original order.
\<close>

definition sort_reverse :: "('a \<Rightarrow> 'k::linorder) \<Rightarrow> 'a list \<Rightarrow> 'a list" where
  "sort_reverse f xs = rev (sort_key f (rev xs))"

text \<open>
  \<open>s.split(sep)\<close> for a separator that is not empty: the pieces between the occurrences of
  \<open>sep\<close>, found from left to right without overlap.
\<close>

function split_from :: "string \<Rightarrow> string \<Rightarrow> string \<Rightarrow> string list" where
  "split_from sep acc [] = [rev acc]"
| "split_from sep acc (c # cs) =
     (if sep \<noteq> [] \<and> prefix sep (c # cs)
      then rev acc # split_from sep [] (drop (length sep) (c # cs))
      else split_from sep (c # acc) cs)"
  by pat_completeness auto
termination
  by (relation "measure (\<lambda>(sep, acc, s). length s)") auto

definition py_split :: "string \<Rightarrow> string \<Rightarrow> string list" where
  "py_split sep s = split_from sep [] s"

text \<open>\<open>str(e)\<close>: the message of an exception.\<close>

definition str_exn :: "exn \<Rightarrow> string" where
  "str_exn e = (case e of ServiceError m \<Rightarrow> m | _ \<Rightarrow> [])"

section \<open>JSON values and \<open>model_dump(mode="json")\<close>\<close>

text \<open>
  What \<open>json.load\<close> returns and \<open>json.dump\<close> takes: objects keep the order of their
  members, as Python dictionaries do.
\<close>

datatype json =
  JNull
  | JBool bool
  | JInt int
  | JFloat real
  | JStr string
  | JArr "json list"
  | JObj "(string \<times> json) list"

subsection \<open>ISO 8601 text of a datetime\<close>

definition digit_char :: "nat \<Rightarrow> char" where
  "digit_char n = char_of (48 + n)"

fun show_fixed :: "nat \<Rightarrow> nat \<Rightarrow> string" where
  "show_fixed 0 n = []"
| "show_fixed (Suc k) n = show_fixed k (n div 10) @ [digit_char (n mod 10)]"

text \<open>\<open>YYYY-MM-DDTHH:MM:SS\<close>, followed by \<open>.ffffff\<close> when the microsecond is not zero.\<close>

definition isoformat :: "datetime \<Rightarrow> string" where
  "isoformat d =
     show_fixed 4 (year d) @ ''-'' @ show_fixed 2 (month d) @ ''-'' @ show_fixed 2 (day d)
     @ ''T'' @ show_fixed 2 (hour d) @ '':'' @ show_fixed 2 (minute d) @ '':''
     @ show_fixed 2 (second d)
     @ (if microsecond d = 0 then [] else ''.'' @ show_fixed 6 (microsecond d))"

subsection \<open>Serialisation of the models, field by field in declaration order\<close>

definition opt_dump :: "('a \<Rightarrow> json) \<Rightarrow> 'a option \<Rightarrow> json" where
  "opt_dump f x = (case x of None \<Rightarrow> JNull | Some v \<Rightarrow> f v)"

definition datetime_dump :: "datetime \<Rightarrow> json" where
  "datetime_dump d = JStr (isoformat d)"

definition author_dump :: "author \<Rightarrow> json" where
  "author_dump a =
     JObj [(''name'', JStr (name a)), (''arxiv_id'', opt_dump JStr (author_arxiv_id a))]"

definition metadata_dump :: "paper_metadata \<Rightarrow> json" where
  "metadata_dump m = JObj
     [(''arxiv_id'', JStr (arxiv_id m)),
      (''title'', JStr (title m)),
      (''authors'', JArr (map author_dump (authors m))),
      (''abstract'', JStr (abstract m)),
      (''published_date'', datetime_dump (published_date m)),
      (''updated_date'', opt_dump datetime_dump (updated_date m)),
      (''pdf_url'', JStr (pdf_url m)),
      (''primary_category'', JStr (primary_category m)),
      (''categories'', JArr (map JStr (categories m))),
      (''comment'', opt_dump JStr (comment m)),
      (''journal_ref'', opt_dump JStr (journal_ref m)),
      (''doi'', opt_dump JStr (doi m))]"

definition analysis_dump :: "ai_analysis \<Rightarrow> json" where
  "analysis_dump a = JObj
     [(''summary'', JStr (summary a)),
      (''key_findings'', JArr (map JStr (key_findings a))),
      (''methodology'', opt_dump JStr (methodology a)),
      (''strengths'', JArr (map JStr (strengths a))),
      (''limitations'', JArr (map JStr (limitations a))),
      (''relevance_score'', opt_dump JFloat (relevance_score a)),
      (''generated_at'', datetime_dump (generated_at a))]"

definition message_dump :: "chat_message \<Rightarrow> json" where
  "message_dump c = JObj
     [(''role'', JStr (role c)),
      (''content'', JStr (content c)),
      (''timestamp'', datetime_dump (timestamp c))]"

definition paper_dump :: "paper \<Rightarrow> json" where
  "paper_dump p = JObj
     [(''metadata'', metadata_dump (metadata p)),
      (''pdf_path'', opt_dump JStr (pdf_path p)),
      (''extracted_text'', opt_dump JStr (extracted_text p)),
      (''ai_analysis'', opt_dump analysis_dump (ai_analysis p)),
      (''chat_history'', JArr (map message_dump (chat_history p))),
      (''processed'', JBool (processed p)),
      (''created_at'', datetime_dump (created_at p)),
      (''updated_at'', opt_dump datetime_dump (updated_at p))]"

subsection \<open>\<open>model_validate\<close>: reading the models back\<close>

text \<open>
  A datetime object only exists for a real calendar date and time of day: the
  constructor of \<open>datetime\<close> rejects anything else.
\<close>

definition is_leap :: "nat \<Rightarrow> bool" where
  "is_leap y = (y mod 4 = 0 \<and> (y mod 100 \<noteq> 0 \<or> y mod 400 = 0))"

definition days_in_month :: "nat \<Rightarrow> nat \<Rightarrow> nat" where
  "days_in_month y m =
     (if m = 2 then (if is_leap y then 29 else 28)
      else if m = 4 \<or> m = 6 \<or> m = 9 \<or> m = 11 then 30 else 31)"

definition valid_datetime :: "datetime \<Rightarrow> bool" where
  "valid_datetime d =
     (1 \<le> year d \<and> year d \<le> 9999 \<and> 1 \<le> month d \<and> month d \<le> 12
      \<and> 1 \<le> day d \<and> day d \<le> days_in_month (year d) (month d)
      \<and> hour d < 24 \<and> minute d < 60 \<and> second d < 60 \<and> microsecond d < 1000000)"

definition read_digit :: "char \<Rightarrow> nat option" where
  "read_digit c =
     (let v = (of_char c :: nat) in if 48 \<le> v \<and> v \<le> 57 then Some (v - 48) else None)"

fun read_digits :: "nat \<Rightarrow> string \<Rightarrow> nat option" where
  "read_digits acc [] = Some acc"
| "read_digits acc (c # cs) =
     (case read_digit c of None \<Rightarrow> None | Some v \<Rightarrow> read_digits (10 * acc + v) cs)"

text \<open>The number written in the \<open>n\<close> characters of \<open>s\<close> from position \<open>i\<close>.\<close>

definition digits_at :: "nat \<Rightarrow> nat \<Rightarrow> string \<Rightarrow> nat option" where
  "digits_at i n s = read_digits 0 (take n (drop i s))"

text \<open>
  The datetime written as \<open>YYYY-MM-DDTHH:MM:SS\<close> or \<open>YYYY-MM-DDTHH:MM:SS.ffffff\<close>, the two
  forms that serialisation produces. The validator of the library reads further
  forms (a space for the \<open>T\<close>, a time zone, a number of seconds); the model rejects them.
\<close>

definition parse_datetime :: "string \<Rightarrow> datetime option" where
  "parse_datetime s =
     (if (length s = 19 \<or> length s = 26 \<and> s ! 19 = CHR ''.'')
         \<and> s ! 4 = CHR ''-'' \<and> s ! 7 = CHR ''-'' \<and> s ! 10 = CHR ''T''
         \<and> s ! 13 = CHR '':'' \<and> s ! 16 = CHR '':''
      then
        Option.bind (digits_at 0 4 s) (\<lambda>y.
        Option.bind (digits_at 5 2 s) (\<lambda>mo.
        Option.bind (digits_at 8 2 s) (\<lambda>d.
        Option.bind (digits_at 11 2 s) (\<lambda>h.
        Option.bind (digits_at 14 2 s) (\<lambda>mi.
        Option.bind (digits_at 17 2 s) (\<lambda>se.
        Option.bind (if length s = 26 then digits_at 20 6 s else Some 0) (\<lambda>us.
          (let dt = \<lparr>year = y, month = mo, day = d, hour = h, minute = mi, second = se,
                      microsecond = us\<rparr>
           in if valid_datetime dt then Some dt else None))))))))
      else None)"

text \<open>
  The validators of the field types. A string field takes a JSON string, a float field
  a JSON number, a bool field a JSON boolean, a datetime field the text of a datetime,
  \<open>Optional[T]\<close> also takes null, and \<open>List[T]\<close> takes an array of which every element
  validates. The further conversions of the library's lax mode are not modelled.
\<close>

definition str_validate :: "json \<Rightarrow> string option" where
  "str_validate j = (case j of JStr s \<Rightarrow> Some s | _ \<Rightarrow> None)"

definition bool_validate :: "json \<Rightarrow> bool option" where
  "bool_validate j = (case j of JBool b \<Rightarrow> Some b | _ \<Rightarrow> None)"

definition float_validate :: "json \<Rightarrow> real option" where
  "float_validate j =
     (case j of JFloat r \<Rightarrow> Some r | JInt i \<Rightarrow> Some (of_int i) | _ \<Rightarrow> None)"

definition datetime_validate :: "json \<Rightarrow> datetime option" where
  "datetime_validate j = (case j of JStr s \<Rightarrow> parse_datetime s | _ \<Rightarrow> None)"

definition opt_validate :: "(json \<Rightarrow> 'a option) \<Rightarrow> json \<Rightarrow> 'a option option" where
  "opt_validate f j = (case j of JNull \<Rightarrow> Some None | _ \<Rightarrow> map_option Some (f j))"

definition list_validate :: "(json \<Rightarrow> 'a option) \<Rightarrow> json \<Rightarrow> 'a list option" where
  "list_validate f j = (case j of JArr xs \<Rightarrow> those (map f xs) | _ \<Rightarrow> None)"

text \<open>
  A field without default must be present; a field with a default takes it when the
  member is missing. Members that no field names are ignored.
\<close>

definition required :: "(json \<Rightarrow> 'a option) \<Rightarrow> (string \<times> json) list \<Rightarrow> string \<Rightarrow> 'a option" where
  "required f kv k = (case map_of kv k of None \<Rightarrow> None | Some j \<Rightarrow> f j)"

definition defaulted ::
  "(json \<Rightarrow> 'a option) \<Rightarrow> 'a \<Rightarrow> (string \<times> json) list \<Rightarrow> string \<Rightarrow> 'a option" where
  "defaulted f d kv k = (case map_of kv k of None \<Rightarrow> Some d | Some j \<Rightarrow> f j)"

definition author_validate :: "json \<Rightarrow> author option" where
  "author_validate j =
     (case j of
        JObj kv \<Rightarrow>
          Option.bind (required str_validate kv ''name'') (\<lambda>n.
          Option.bind (defaulted (opt_validate str_validate) None kv ''arxiv_id'') (\<lambda>a.
            Some \<lparr>name = n, author_arxiv_id = a\<rparr>))
      | _ \<Rightarrow> None)"

definition metadata_validate :: "json \<Rightarrow> paper_metadata option" where
  "metadata_validate j =
     (case j of
        JObj kv \<Rightarrow>
          Option.bind (required str_validate kv ''arxiv_id'') (\<lambda>i.
          Option.bind (required str_validate kv ''title'') (\<lambda>t.
          Option.bind (required (list_validate author_validate) kv ''authors'') (\<lambda>au.
          Option.bind (required str_validate kv ''abstract'') (\<lambda>ab.
          Option.bind (required datetime_validate kv ''published_date'') (\<lambda>pd.
          Option.bind (defaulted (opt_validate datetime_validate) None kv ''updated_date'') (\<lambda>ud.
          Option.bind (required str_validate kv ''pdf_url'') (\<lambda>u.
          Option.bind (required str_validate kv ''primary_category'') (\<lambda>pc.
          Option.bind (defaulted (list_validate str_validate) [] kv ''categories'') (\<lambda>cs.
          Option.bind (defaulted (opt_validate str_validate) None kv ''comment'') (\<lambda>co.
          Option.bind (defaulted (opt_validate str_validate) None kv ''journal_ref'') (\<lambda>jr.
          Option.bind (defaulted (opt_validate str_validate) None kv ''doi'') (\<lambda>dd.
            Some \<lparr>arxiv_id = i, title = t, authors = au, abstract = ab, published_date = pd,
                  updated_date = ud, pdf_url = u, primary_category = pc, categories = cs,
                  comment = co, journal_ref = jr, doi = dd\<rparr>))))))))))))
      | _ \<Rightarrow> None)"

text \<open>
  \<open>generated_at\<close>, \<open>timestamp\<close> and \<open>created_at\<close> default to \<open>datetime.utcnow()\<close>, the
  time \<open>now\<close> of the validation.
\<close>

definition analysis_validate :: "datetime \<Rightarrow> json \<Rightarrow> ai_analysis option" where
  "analysis_validate now j =
     (case j of
        JObj kv \<Rightarrow>
          Option.bind (defaulted str_validate [] kv ''summary'') (\<lambda>s.
          Option.bind (defaulted (list_validate str_validate) [] kv ''key_findings'') (\<lambda>kf.
          Option.bind (defaulted (opt_validate str_validate) None kv ''methodology'') (\<lambda>m.
          Option.bind (defaulted (list_validate str_validate) [] kv ''strengths'') (\<lambda>st.
          Option.bind (defaulted (list_validate str_validate) [] kv ''limitations'') (\<lambda>li.
          Option.bind (defaulted (opt_validate float_validate) None kv ''relevance_score'') (\<lambda>r.
          Option.bind (defaulted datetime_validate now kv ''generated_at'') (\<lambda>g.
            Some \<lparr>summary = s, key_findings = kf, methodology = m, strengths = st,
                  limitations = li, relevance_score = r, generated_at = g\<rparr>)))))))
      | _ \<Rightarrow> None)"

definition message_validate :: "datetime \<Rightarrow> json \<Rightarrow> chat_message option" where
  "message_validate now j =
     (case j of
        JObj kv \<Rightarrow>
          Option.bind (required str_validate kv ''role'') (\<lambda>r.
          Option.bind (required str_validate kv ''content'') (\<lambda>c.
          Option.bind (defaulted datetime_validate now kv ''timestamp'') (\<lambda>t.
            Some \<lparr>role = r, content = c, timestamp = t\<rparr>)))
      | _ \<Rightarrow> None)"

definition paper_validate :: "datetime \<Rightarrow> json \<Rightarrow> paper option" where
  "paper_validate now j =
     (case j of
        JObj kv \<Rightarrow>
          Option.bind (required metadata_validate kv ''metadata'') (\<lambda>m.
          Option.bind (defaulted (opt_validate str_validate) None kv ''pdf_path'') (\<lambda>pp.
          Option.bind (defaulted (opt_validate str_validate) None kv ''extracted_text'') (\<lambda>et.
          Option.bind (defaulted (opt_validate (analysis_validate now)) None kv ''ai_analysis'') (\<lambda>ai.
          Option.bind (defaulted (list_validate (message_validate now)) [] kv ''chat_history'') (\<lambda>ch.
          Option.bind (defaulted bool_validate False kv ''processed'') (\<lambda>pr.
          Option.bind (defaulted datetime_validate now kv ''created_at'') (\<lambda>ca.
          Option.bind (defaulted (opt_validate datetime_validate) None kv ''updated_at'') (\<lambda>ua.
            Some \<lparr>metadata = m, pdf_path = pp, extracted_text = et, ai_analysis = ai,
                  chat_history = ch, processed = pr, created_at = ca, updated_at = ua\<rparr>))))))))
      | _ \<Rightarrow> None)"

section \<open>The paper store (app/services/data_store.py)\<close>

text \<open>
  The backing file either does not exist, holds text that is not a JSON document, or
  holds a JSON document. Writing the file is assumed to succeed.
\<close>

datatype file_state = Absent | Garbage | Document json

datatype log_entry =
  LogLoaded nat
  | LogLoadFailed
  | LogExists string
  | LogAdded string

text \<open>
  \<open>_papers_cache\<close> is a Python dictionary: an association list in insertion order, where
  assigning to an existing key keeps its position (\<open>AList.update\<close>).
\<close>

record store =
  papers_cache :: "(string \<times> paper) list"
  papers_file :: file_state
  logged :: "log_entry list"

definition logger :: "log_entry \<Rightarrow> store \<Rightarrow> store" where
  "logger e s = s\<lparr>logged := logged s @ [e]\<rparr>"

definition save_to_file :: "json \<Rightarrow> store \<Rightarrow> store" where
  "save_to_file data s = s\<lparr>papers_file := Document data\<rparr>"

definition save_cache :: "store \<Rightarrow> store" where
  "save_cache s =
     save_to_file (JObj (map (\<lambda>(k, p). (k, paper_dump p)) (papers_cache s))) s"

definition add_paper :: "paper \<Rightarrow> store \<Rightarrow> bool \<times> store" where
  "add_paper p s =
     (let k = arxiv_id (metadata p) in
      if k \<in> fst ` set (papers_cache s) then (False, logger (LogExists k) s)
      else (True,
            logger (LogAdded k)
              (save_cache (s\<lparr>papers_cache := AList.update k p (papers_cache s)\<rparr>))))"

definition get_paper :: "string \<Rightarrow> store \<Rightarrow> paper option" where
  "get_paper k s = map_of (papers_cache s) k"


subsection \<open>Mutators\<close>

text \<open>
  Each mutator looks the paper up, changes one field of it, stamps \<open>updated_at\<close> with the
  clock reading \<open>now\<close> and saves the whole cache; for an unknown identifier it returns
  False and does nothing.
\<close>

definition set_ai_analysis :: "string \<Rightarrow> ai_analysis \<Rightarrow> datetime \<Rightarrow> store \<Rightarrow> bool \<times> store" where
  "set_ai_analysis k analysis now s =
     (case map_of (papers_cache s) k of
        None \<Rightarrow> (False, s)
      | Some p \<Rightarrow>
          (True, save_cache (s\<lparr>papers_cache :=
             AList.update k (p\<lparr>ai_analysis := Some analysis, updated_at := Some now\<rparr>)
               (papers_cache s)\<rparr>)))"

definition add_chat_message :: "string \<Rightarrow> chat_message \<Rightarrow> datetime \<Rightarrow> store \<Rightarrow> bool \<times> store" where
  "add_chat_message k message now s =
     (case map_of (papers_cache s) k of
        None \<Rightarrow> (False, s)
      | Some p \<Rightarrow>
          (True, save_cache (s\<lparr>papers_cache :=
             AList.update k (p\<lparr>chat_history := chat_history p @ [message],
                                updated_at := Some now\<rparr>)
               (papers_cache s)\<rparr>)))"



subsection \<open>Loading the file\<close>

text \<open>
  The loop of \<open>_load_cache\<close>: each record is validated and assigned to its key; the first
  record that fails raises, which is \<open>None\<close> here.
\<close>

fun load_items ::
  "datetime \<Rightarrow> (string \<times> json) list \<Rightarrow> (string \<times> paper) list \<Rightarrow> (string \<times> paper) list option" where
  "load_items now [] cache = Some cache"
| "load_items now ((k, paper_data) # rest) cache =
     (case paper_validate now paper_data of
        None \<Rightarrow> None
      | Some p \<Rightarrow> load_items now rest (AList.update k p cache))"

text \<open>
  \<open>_load_cache\<close>. Any exception inside the \<open>try\<close> (the file is missing, it is not JSON, the
  document is not an object and so has no \<open>items\<close>, a record fails validation) is logged
  and the whole cache is replaced by the empty dictionary.
\<close>

definition load_cache :: "datetime \<Rightarrow> store \<Rightarrow> store" where
  "load_cache now s =
     (case papers_file s of
        Document (JObj items) \<Rightarrow>
          (case load_items now items (papers_cache s) of
             Some cache \<Rightarrow> logger (LogLoaded (length cache)) (s\<lparr>papers_cache := cache\<rparr>)
           | None \<Rightarrow> (logger LogLoadFailed s)\<lparr>papers_cache := []\<rparr>)
      | _ \<Rightarrow> (logger LogLoadFailed s)\<lparr>papers_cache := []\<rparr>)"

definition ensure_file_exists :: "datetime \<Rightarrow> store \<Rightarrow> store" where
  "ensure_file_exists now s =
     (if papers_file s = Absent then save_to_file (JObj []) s else load_cache now s)"

text \<open>\<open>DataStore()\<close> on a given state of the backing file.\<close>

definition data_store_init :: "datetime \<Rightarrow> file_state \<Rightarrow> store" where
  "data_store_init now f =
     ensure_file_exists now \<lparr>papers_cache = [], papers_file = f, logged = []\<rparr>"


text \<open>Every datetime held by a paper is a datetime object.\<close>

definition valid_analysis :: "ai_analysis \<Rightarrow> bool" where
  "valid_analysis a = valid_datetime (generated_at a)"

definition valid_paper :: "paper \<Rightarrow> bool" where
  "valid_paper p =
     (valid_datetime (published_date (metadata p))
      \<and> (case updated_date (metadata p) of None \<Rightarrow> True | Some d \<Rightarrow> valid_datetime d)
      \<and> (case ai_analysis p of None \<Rightarrow> True | Some a \<Rightarrow> valid_analysis a)
      \<and> list_all (\<lambda>c. valid_datetime (timestamp c)) (chat_history p)
      \<and> valid_datetime (created_at p)
      \<and> (case updated_at p of None \<Rightarrow> True | Some d \<Rightarrow> valid_datetime d))"

subsection \<open>Listing and counting\<close>

text \<open>
  The five filter statements of \<open>list_papers\<close>, in source order. \<open>datetime.fromisoformat\<close>
  is Python's; it is a parameter of the model, with \<open>None\<close> for the ValueError it raises
  on a string it does not accept.
\<close>

definition by_category :: "string option \<Rightarrow> paper list \<Rightarrow> paper list" where
  "by_category category papers =
     (if truthy category
      then filter (\<lambda>p. primary_category (metadata p) = the category) papers
      else papers)"

definition by_date_from ::
  "(string \<Rightarrow> datetime option) \<Rightarrow> string option \<Rightarrow> paper list \<Rightarrow> exn + paper list" where
  "by_date_from fromisoformat date_from papers =
     (if truthy date_from
      then (case fromisoformat (the date_from) of
              None \<Rightarrow> Inl ValueError
            | Some from_dt \<Rightarrow>
                Inr (filter (\<lambda>p. dt_key (published_date (metadata p)) \<ge> dt_key from_dt) papers))
      else Inr papers)"

definition by_date_to ::
  "(string \<Rightarrow> datetime option) \<Rightarrow> string option \<Rightarrow> paper list \<Rightarrow> exn + paper list" where
  "by_date_to fromisoformat date_to papers =
     (if truthy date_to
      then (case fromisoformat (the date_to) of
              None \<Rightarrow> Inl ValueError
            | Some to_dt \<Rightarrow>
                Inr (filter (\<lambda>p. dt_key (published_date (metadata p)) \<le> dt_key to_dt) papers))
      else Inr papers)"

definition by_processed :: "bool option \<Rightarrow> paper list \<Rightarrow> paper list" where
  "by_processed flag papers =
     (case flag of None \<Rightarrow> papers | Some b \<Rightarrow> filter (\<lambda>p. processed p = b) papers)"

definition by_search :: "string option \<Rightarrow> paper list \<Rightarrow> paper list" where
  "by_search search papers =
     (if truthy search
      then (let search_lower = lower (the search)
            in filter (\<lambda>p. py_in search_lower (lower (title (metadata p)))
                          \<or> py_in search_lower (lower (abstract (metadata p)))) papers)
      else papers)"

text \<open>Lines 139 to 163 of \<open>list_papers\<close>: the values of the cache, filtered.\<close>

definition apply_filters ::
  "(string \<Rightarrow> datetime option) \<Rightarrow> store \<Rightarrow> string option \<Rightarrow> string option \<Rightarrow> string option
   \<Rightarrow> bool option \<Rightarrow> string option \<Rightarrow> exn + paper list" where
  "apply_filters fromisoformat s category date_from date_to flag search =
     (case by_date_from fromisoformat date_from
             (by_category category (map snd (papers_cache s))) of
        Inl e \<Rightarrow> Inl e
      | Inr papers \<Rightarrow>
          (case by_date_to fromisoformat date_to papers of
             Inl e \<Rightarrow> Inl e
           | Inr papers \<Rightarrow> Inr (by_search search (by_processed flag papers))))"

definition newest_first :: "paper list \<Rightarrow> paper list" where
  "newest_first papers = sort_reverse (\<lambda>p. dt_key (published_date (metadata p))) papers"

definition list_papers ::
  "(string \<Rightarrow> datetime option) \<Rightarrow> store \<Rightarrow> string option \<Rightarrow> string option \<Rightarrow> string option
   \<Rightarrow> bool option \<Rightarrow> string option \<Rightarrow> int \<Rightarrow> int \<Rightarrow> exn + paper list" where
  "list_papers fromisoformat s category date_from date_to flag search limit offset =
     (case apply_filters fromisoformat s category date_from date_to flag search of
        Inl e \<Rightarrow> Inl e
      | Inr papers \<Rightarrow> Inr (py_slice (newest_first papers) offset (offset + limit)))"

definition count_papers :: "store \<Rightarrow> string option \<Rightarrow> bool option \<Rightarrow> nat" where
  "count_papers s category flag =
     length (by_processed flag (by_category category (map snd (papers_cache s))))"

subsection \<open>What the specification says of listing\<close>

text \<open>
  The parsed bound of a date filter: absent when the filter is not given.
\<close>

definition date_bound ::
  "(string \<Rightarrow> datetime option) \<Rightarrow> string option \<Rightarrow> exn + datetime option" where
  "date_bound fromisoformat d =
     (if truthy d
      then (case fromisoformat (the d) of None \<Rightarrow> Inl ValueError | Some t \<Rightarrow> Inr (Some t))
      else Inr None)"

text \<open>
  The specification's filter: category exact match, published date within inclusive
  bounds, processed flag exact match, case-insensitive search in title or abstract, all
  joined by a logical and.
\<close>

definition spec_matches ::
  "string option \<Rightarrow> datetime option \<Rightarrow> datetime option \<Rightarrow> bool option \<Rightarrow> string option
   \<Rightarrow> paper \<Rightarrow> bool" where
  "spec_matches category lo hi flag search p =
     ((truthy category \<longrightarrow> primary_category (metadata p) = the category)
      \<and> (case lo of None \<Rightarrow> True
          | Some t \<Rightarrow> dt_key t \<le> dt_key (published_date (metadata p)))
      \<and> (case hi of None \<Rightarrow> True
          | Some t \<Rightarrow> dt_key (published_date (metadata p)) \<le> dt_key t)
      \<and> (case flag of None \<Rightarrow> True | Some b \<Rightarrow> processed p = b)
      \<and> (truthy search \<longrightarrow>
            sublist (lower (the search)) (lower (title (metadata p)))
            \<or> sublist (lower (the search)) (lower (abstract (metadata p)))))"


text \<open>
  The full listing of the specification: every paper that matches, newest first.
\<close>

definition spec_listing ::
  "store \<Rightarrow> string option \<Rightarrow> datetime option \<Rightarrow> datetime option \<Rightarrow> bool option
   \<Rightarrow> string option \<Rightarrow> paper list" where
  "spec_listing s category lo hi flag search =
     newest_first (filter (spec_matches category lo hi flag search) (map snd (papers_cache s)))"


section \<open>The services around the store\<close>

text \<open>
  The catalogue, the document fetcher, the text extractor and the generation backend are
  outside the repository, as are the clock and the JSON decoder. They are parameters of
  the model: each is a function that gives the outcome of a call, with \<open>Inl\<close> for a raised
  exception. \<open>utcnow\<close> gives the successive readings of the clock.
\<close>

record llm_request =
  req_model :: string
  req_messages :: "(string \<times> string) list"
  req_max_tokens :: nat
  req_stream :: bool

record services =
  utcnow :: "nat \<Rightarrow> datetime"
  datetime_fromisoformat :: "string \<Rightarrow> datetime option"
  json_loads :: "string \<Rightarrow> json option"
  default_model :: string
  create_completion :: "llm_request \<Rightarrow> exn + string option"
  create_stream :: "llm_request \<Rightarrow> string option list \<times> exn option"
  fetch_by_category :: "string \<Rightarrow> exn + paper_metadata list"
  download_pdf :: "string \<Rightarrow> string \<Rightarrow> string \<Rightarrow> datetime \<Rightarrow> string option"
  extract_text :: "string \<Rightarrow> exn + string option"

text \<open>
  The state that the pipeline and the routes change: the store, the number of clock
  readings so far, and the requests sent to the generation backend.
\<close>

record world =
  data_store :: store
  ticks :: nat
  llm_calls :: "llm_request list"

definition clock :: "services \<Rightarrow> world \<Rightarrow> datetime \<times> world" where
  "clock S w = (utcnow S (ticks w), w\<lparr>ticks := Suc (ticks w)\<rparr>)"

section \<open>The generation client (app/services/llm_service.py)\<close>

text \<open>
  Lines 105 to 108 of \<open>analyze_paper\<close>: the text inside a Markdown code fence, when the
  reply has one. The test before each \<open>split\<close> makes the second piece exist.
\<close>

definition strip_fence :: "string \<Rightarrow> string" where
  "strip_fence reply =
     (if py_in ''```json'' reply
      then hd (py_split ''```'' (py_split ''```json'' reply ! 1))
      else if py_in ''```'' reply
      then hd (py_split ''```'' (py_split ''```'' reply ! 1))
      else reply)"

text \<open>
  \<open>AIAnalysis(summary=data.get("summary", ""), ...)\<close> on a dictionary: a missing key takes
  the default, a present one is validated against the field type. \<open>generated_at\<close> is
  not passed and takes the time of the call.
\<close>

definition analysis_from_data :: "datetime \<Rightarrow> (string \<times> json) list \<Rightarrow> ai_analysis option" where
  "analysis_from_data now kv =
     Option.bind (defaulted str_validate [] kv ''summary'') (\<lambda>s.
     Option.bind (defaulted (list_validate str_validate) [] kv ''key_findings'') (\<lambda>kf.
     Option.bind (defaulted (opt_validate str_validate) None kv ''methodology'') (\<lambda>m.
     Option.bind (defaulted (list_validate str_validate) [] kv ''strengths'') (\<lambda>st.
     Option.bind (defaulted (list_validate str_validate) [] kv ''limitations'') (\<lambda>li.
     Option.bind (defaulted (opt_validate float_validate) None kv ''relevance_score'') (\<lambda>r.
       Some \<lparr>summary = s, key_findings = kf, methodology = m, strengths = st,
             limitations = li, relevance_score = r, generated_at = now\<rparr>))))))"

text \<open>\<open>AIAnalysis(summary=...)\<close>: every other field takes its default.\<close>

definition summary_only :: "datetime \<Rightarrow> string \<Rightarrow> ai_analysis" where
  "summary_only now s =
     \<lparr>summary = s, key_findings = [], methodology = None, strengths = [], limitations = [],
      relevance_score = None, generated_at = now\<rparr>"

text \<open>
  Lines 102 to 121: the \<open>try\<close> block that turns the reply into an analysis. Only a
  \<open>JSONDecodeError\<close> (or a \<open>KeyError\<close>, which nothing here raises) is caught: a decoded
  value that is not a dictionary has no \<open>get\<close>, and a field of the wrong type fails
  validation; both exceptions leave the function.
\<close>

definition parse_analysis :: "(string \<Rightarrow> json option) \<Rightarrow> datetime \<Rightarrow> string \<Rightarrow> exn + ai_analysis" where
  "parse_analysis loads now reply =
     (let body = strip_fence reply in
      case loads body of
        None \<Rightarrow> Inr (summary_only now (take 500 body))
      | Some (JObj kv) \<Rightarrow>
          (case analysis_from_data now kv of
             None \<Rightarrow> Inl ValidationError
           | Some a \<Rightarrow> Inr a)
      | Some _ \<Rightarrow> Inl AttributeError)"

definition analysis_prompt :: string where
  "analysis_prompt =
     ''You are a research assistant analyzing an academic paper. ''
     @ ''Provide a structured analysis with: 1. A concise summary (2-3 sentences) ''
     @ ''2. Key findings (bullet points) 3. Methodology overview 4. Strengths ''
     @ ''5. Limitations 6. Relevance score (0-100) for ML/AI research. ''
     @ ''Return as JSON with keys: summary, key_findings (list), methodology, ''
     @ ''strengths (list), limitations (list), relevance_score.''"

definition analysis_request :: "services \<Rightarrow> string \<Rightarrow> string \<Rightarrow> string option \<Rightarrow> llm_request" where
  "analysis_request S paper_title paper_abstract full_text =
     (let context = ''Title: '' @ paper_title @ ''\<newline>\<newline>Abstract: ''
                    @ paper_abstract;
          context = (if truthy full_text
                     then context @ ''\<newline>\<newline>Full Text (excerpt):\<newline>''
                          @ take 15000 (the full_text)
                     else context)
      in \<lparr>req_model = default_model S,
          req_messages = [(''system'', analysis_prompt), (''user'', context)],
          req_max_tokens = 1000, req_stream = False\<rparr>)"

text \<open>
  \<open>analyze_paper\<close>: one request to the backend; a reply without content counts as \<open>{}\<close>.
\<close>

definition analyze_paper ::
  "services \<Rightarrow> string \<Rightarrow> string \<Rightarrow> string option \<Rightarrow> world \<Rightarrow> (exn + ai_analysis) \<times> world" where
  "analyze_paper S paper_title paper_abstract full_text w =
     (let req = analysis_request S paper_title paper_abstract full_text;
          w1 = w\<lparr>llm_calls := llm_calls w @ [req]\<rparr>
      in case create_completion S req of
           Inl e \<Rightarrow> (Inl e, w1)
         | Inr c \<Rightarrow>
             (let reply = (if truthy c then the c else ''{}'');
                  (now, w2) = clock S w1
              in case parse_analysis (json_loads S) now reply of
                   Inl e \<Rightarrow> (Inl e, w1)
                 | Inr a \<Rightarrow> (Inr a, w2)))"

text \<open>
  A mutator of the store called from the pipeline: it reads the clock when it finds the
  paper.
\<close>

definition store_op :: "services \<Rightarrow> (datetime \<Rightarrow> store \<Rightarrow> bool \<times> store) \<Rightarrow> world \<Rightarrow> bool \<times> world" where
  "store_op S f w =
     (let (ok, s) = f (utcnow S (ticks w)) (data_store w)
      in (ok, w\<lparr>data_store := s, ticks := (if ok then Suc (ticks w) else ticks w)\<rparr>))"

text \<open>
  \<open>chat_with_context\<close>: the fragments that the generator yields. The backend gives the
  chunks of the stream and, when the request or the stream fails, the exception that
  ends it; the \<open>except\<close> clause turns the exception into one last fragment.
\<close>

definition chat_prompt :: "string \<Rightarrow> string" where
  "chat_prompt truncated_text =
     ''You are a research assistant helping a user understand an academic paper. ''
     @ ''You must answer based ONLY on the provided paper content. ''
     @ ''If the answer cannot be found in the paper, say so clearly. ''
     @ ''Paper content:\<newline>'' @ truncated_text @ ''\<newline>\<newline>Current conversation:''"

definition chat_request ::
  "services \<Rightarrow> string \<Rightarrow> (string \<times> string) list \<Rightarrow> string option \<Rightarrow> llm_request" where
  "chat_request S paper_text messages model =
     (let selected_model = (if truthy model then the model else default_model S);
          truncated_text = take 50000 paper_text;
          full_messages = (''system'', chat_prompt truncated_text) # messages
      in \<lparr>req_model = selected_model, req_messages = full_messages, req_max_tokens = 4000,
          req_stream = True\<rparr>)"

definition chat_with_context ::
  "services \<Rightarrow> string \<Rightarrow> (string \<times> string) list \<Rightarrow> string option \<Rightarrow> world
   \<Rightarrow> string list \<times> world" where
  "chat_with_context S paper_text messages model w =
     (let req = chat_request S paper_text messages model;
          (chunks, failure) = create_stream S req
      in (map the (filter truthy chunks)
          @ (case failure of None \<Rightarrow> [] | Some e \<Rightarrow> [''Error: '' @ str_exn e]),
          w\<lparr>llm_calls := llm_calls w @ [req]\<rparr>))"

section \<open>The scheduler (app/utils/scheduler.py)\<close>

record fetch_result =
  found :: nat
  downloaded :: nat
  saved :: nat









text \<open>The identifiers held by the store.\<close>

definition keys :: "world \<Rightarrow> string set" where
  "keys w = fst ` set (papers_cache (data_store w))"




section \<open>The chat routes (app/api/routes/chat.py)\<close>

datatype http_error = HTTPException nat string

datatype route_error = Http http_error | Unhandled exn

datatype sse_event = Event string string

text \<open>
  \<open>chat_event_generator\<close>, run to its end: the events it yields and the state it leaves.
\<close>

definition chat_event_generator ::
  "services \<Rightarrow> string \<Rightarrow> string \<Rightarrow> string option \<Rightarrow> world \<Rightarrow> sse_event list \<times> world" where
  "chat_event_generator S k user_message model w =
     (case get_paper k (data_store w) of
        None \<Rightarrow> ([Event ''error'' ''Paper not found''], w)
      | Some p \<Rightarrow>
          if \<not> truthy (extracted_text p)
          then ([Event ''error'' ''Paper text not extracted. Please process the paper first.''], w)
          else
            (let messages =
                   map (\<lambda>msg. (role msg, content msg))
                       (drop (length (chat_history p) - 10) (chat_history p))
                   @ [(''user'', user_message)];
                 (t1, w1) = clock S w;
                 user_msg = \<lparr>role = ''user'', content = user_message, timestamp = t1\<rparr>;
                 (ok1, w2) = store_op S (add_chat_message k user_msg) w1;
                 (fragments, w3) = chat_with_context S (the (extracted_text p)) messages model w2;
                 response_text = concat fragments;
                 (t2, w4) = clock S w3;
                 assistant_msg = \<lparr>role = ''assistant'', content = response_text, timestamp = t2\<rparr>;
                 (ok2, w5) = store_op S (add_chat_message k assistant_msg) w4
             in (map (Event ''message'') fragments @ [Event ''done'' []], w5)))"

definition chat_with_paper ::
  "services \<Rightarrow> string \<Rightarrow> string \<Rightarrow> string option \<Rightarrow> world
   \<Rightarrow> (http_error + sse_event list) \<times> world" where
  "chat_with_paper S k message model w =
     (case get_paper k (data_store w) of
        None \<Rightarrow> (Inl (HTTPException 404 ''Paper not found''), w)
      | Some p \<Rightarrow>
          if \<not> truthy (extracted_text p)
          then (Inl (HTTPException 400
                  ''Paper text not extracted. Please process the paper first.''), w)
          else (let (events, w1) = chat_event_generator S k message model w
                in (Inr events, w1)))"

record summary_response =
  resp_summary :: string
  resp_key_findings :: "string list"
  resp_methodology :: "string option"
  resp_strengths :: "string list"
  resp_limitations :: "string list"

definition generate_paper_summary ::
  "services \<Rightarrow> string \<Rightarrow> world \<Rightarrow> (route_error + summary_response) \<times> world" where
  "generate_paper_summary S k w =
     (case get_paper k (data_store w) of
        None \<Rightarrow> (Inl (Http (HTTPException 404 ''Paper not found'')), w)
      | Some p \<Rightarrow>
          if \<not> truthy (extracted_text p)
          then (Inl (Http (HTTPException 400
                  ''Paper text not extracted. Please process the paper first.'')), w)
          else (case analyze_paper S (title (metadata p)) (abstract (metadata p))
                       (extracted_text p) w of
                  (Inl e, w1) \<Rightarrow> (Inl (Unhandled e), w1)
                | (Inr analysis, w1) \<Rightarrow>
                    (let (ok, w2) = store_op S (set_ai_analysis k analysis) w1
                     in (Inr \<lparr>resp_summary = summary analysis,
                               resp_key_findings = key_findings analysis,
                               resp_methodology = methodology analysis,
                               resp_strengths = strengths analysis,
                               resp_limitations = limitations analysis\<rparr>, w2))))"

text \<open>The two error conditions of the routes.\<close>

definition not_extracted :: http_error where
  "not_extracted = HTTPException 400 ''Paper text not extracted. Please process the paper first.''"

definition not_found :: http_error where
  "not_found = HTTPException 404 ''Paper not found''"


section \<open>Example data (tests/test_data_store.py, test_list_papers_sort_by_date)\<close>

text \<open>\<open>datetime(y, m, d)\<close>: midnight of the given day.\<close>

definition mk_date :: "nat \<Rightarrow> nat \<Rightarrow> nat \<Rightarrow> datetime" where
  "mk_date y m d =
     \<lparr>year = y, month = m, day = d, hour = 0, minute = 0, second = 0, microsecond = 0\<rparr>"

definition test_metadata :: "string \<Rightarrow> string \<Rightarrow> datetime \<Rightarrow> paper_metadata" where
  "test_metadata k t d =
     \<lparr>arxiv_id = k, title = t, authors = [], abstract = ''Abstract'', published_date = d,
      updated_date = None, pdf_url = ''http://test.com/'' @ k @ ''.pdf'',
      primary_category = ''cs.AI'', categories = [], comment = None, journal_ref = None,
      doi = None\<rparr>"

definition paper0 :: paper where
  "paper0 = new_paper (mk_date 2024 2 1) (test_metadata ''test-sort-0'' ''Paper 0'' (mk_date 2024 1 10))"

definition paper1 :: paper where
  "paper1 = new_paper (mk_date 2024 2 1) (test_metadata ''test-sort-1'' ''Paper 1'' (mk_date 2024 1 20))"

definition paper2 :: paper where
  "paper2 = new_paper (mk_date 2024 2 1) (test_metadata ''test-sort-2'' ''Paper 2'' (mk_date 2024 1 15))"

definition empty_store :: store where
  "empty_store = \<lparr>papers_cache = [], papers_file = Document (JObj []), logged = []\<rparr>"

definition store1 :: store where
  "store1 = snd (add_paper paper0 empty_store)"

definition store3 :: store where
  "store3 = snd (add_paper paper2 (snd (add_paper paper1 store1)))"

definition test_fromisoformat :: "string \<Rightarrow> datetime option" where
  "test_fromisoformat x = (if x = ''2024-01-12'' then Some (mk_date 2024 1 12) else None)"

text \<open>The fixtures of tests/conftest.py, with a chat message in the history.\<close>

definition sample_paper_metadata :: paper_metadata where
  "sample_paper_metadata =
     \<lparr>arxiv_id = ''test-1234.5678'', title = ''Test Paper Title'',
      authors = [\<lparr>name = ''Test Author'', author_arxiv_id = Some ''testauthor1''\<rparr>],
      abstract = ''This is a test abstract for the paper.'',
      published_date = mk_date 2024 1 15, updated_date = Some (mk_date 2024 1 20),
      pdf_url = ''http://arxiv.org/pdf/test-1234.5678.pdf'', primary_category = ''cs.AI'',
      categories = [''cs.AI'', ''cs.LG''], comment = Some ''Test comment'',
      journal_ref = Some ''Test Journal Ref'', doi = Some ''10.1234/test.doi''\<rparr>"

definition test_now :: datetime where
  "test_now = \<lparr>year = 2024, month = 3, day = 1, hour = 12, minute = 30, second = 45,
               microsecond = 123456\<rparr>"

definition sample_ai_analysis :: ai_analysis where
  "sample_ai_analysis =
     \<lparr>summary = ''Test summary'', key_findings = [''Finding 1'', ''Finding 2''],
      methodology = Some ''Test methodology'', strengths = [''Strength 1''],
      limitations = [''Limitation 1''], relevance_score = Some 0.85,
      generated_at = test_now\<rparr>"

definition sample_chat_message :: chat_message where
  "sample_chat_message =
     \<lparr>role = ''user'', content = ''What is the main contribution?'', timestamp = test_now\<rparr>"

definition sample_paper :: paper where
  "sample_paper =
     \<lparr>metadata = sample_paper_metadata, pdf_path = Some ''papers/test-1234.5678.pdf'',
      extracted_text = Some ''Extracted text content'', ai_analysis = Some sample_ai_analysis,
      chat_history = [sample_chat_message], processed = True, created_at = test_now,
      updated_at = None\<rparr>"


text \<open>A backing file with one valid record and one record that is \<open>null\<close>.\<close>

definition broken_file :: file_state where
  "broken_file = Document (JObj [(''test-sort-0'', paper_dump paper0), (''bad'', JNull)])"

text \<open>
  A decoder for the examples: it agrees with \<open>json.loads\<close> on the texts they use.
\<close>

definition test_json_text :: string where
  \<open>test_json_text = ''{"summary": "S", "key_findings": ["F"], "relevance_score": 85}''\<close>

definition test_loads :: "string \<Rightarrow> json option" where
  "test_loads s =
     (if s = test_json_text
      then Some (JObj [(''summary'', JStr ''S''), (''key_findings'', JArr [JStr ''F'']),
                       (''relevance_score'', JInt 85)])
      else if s = ''[]'' then Some (JArr [])
      else None)"

text \<open>
  Services for the examples: the backend fails on the paper titled \<open>Paper 2\<close> and
  answers with a fenced JSON object otherwise, the stream breaks after two fragments,
  the download of \<open>test-sort-1\<close> fails, and only the category \<open>cs.AI\<close> can be fetched.
\<close>

definition test_metadata_list :: "paper_metadata list" where
  "test_metadata_list = [metadata paper0, metadata paper1, metadata paper2]"

definition test_services :: services where
  "test_services =
     \<lparr>utcnow = (\<lambda>n. test_now\<lparr>microsecond := n\<rparr>),
      datetime_fromisoformat = test_fromisoformat,
      json_loads = test_loads,
      default_model = ''anthropic/claude-3.5-sonnet'',
      create_completion =
        (\<lambda>r. if prefix ''Title: Paper 2'' (snd (last (req_messages r)))
             then Inl (ServiceError ''backend down'')
             else Inr (Some (''```json'' @ test_json_text @ ''```''))),
      create_stream = (\<lambda>r. ([Some ''The paper '', None, Some [], Some ''shows''],
                            Some (ServiceError ''connection reset''))),
      fetch_by_category = (\<lambda>c. if c = ''cs.AI'' then Inr test_metadata_list
                                else Inl (ServiceError ''arXiv unreachable'')),
      download_pdf = (\<lambda>i u c d. if i = ''test-sort-1'' then None
                                 else Some (''papers/'' @ c @ ''/'' @ i @ ''.pdf'')),
      extract_text = (\<lambda>f. Inr (Some ''Extracted text content''))\<rparr>"

definition test_world :: "store \<Rightarrow> world" where
  "test_world s = \<lparr>data_store = s, ticks = 0, llm_calls = []\<rparr>"




section \<open>Properties\<close>

lemma update_absent: "k \<notin> fst ` set al \<Longrightarrow> AList.update k v al = al @ [(k, v)]"
  by (induction al) auto

lemma map_of_append_absent: "k \<notin> fst ` set al \<Longrightarrow> map_of (al @ [(k, v)]) k = Some v"
  by (induction al) auto

text \<open>
  C1. Adding a paper whose identifier is already a key returns False and leaves the
  in-memory mapping and the file as they were; adding a paper whose identifier is absent
  returns True, puts the paper under its identifier (at the end of the mapping) and
  rewrites the file with the serialisation of the whole new mapping.
\<close>

theorem add_paper_contract:
  "(arxiv_id (metadata p) \<in> fst ` set (papers_cache s) \<longrightarrow>
      fst (add_paper p s) = False
      \<and> papers_cache (snd (add_paper p s)) = papers_cache s
      \<and> papers_file (snd (add_paper p s)) = papers_file s)
   \<and> (arxiv_id (metadata p) \<notin> fst ` set (papers_cache s) \<longrightarrow>
      fst (add_paper p s) = True
      \<and> papers_cache (snd (add_paper p s)) = papers_cache s @ [(arxiv_id (metadata p), p)]
      \<and> get_paper (arxiv_id (metadata p)) (snd (add_paper p s)) = Some p
      \<and> papers_file (snd (add_paper p s)) =
          Document (JObj (map (\<lambda>(k, q). (k, paper_dump q))
             (papers_cache s @ [(arxiv_id (metadata p), p)]))))"
  by (simp add: add_paper_def Let_def logger_def save_cache_def save_to_file_def
      update_absent get_paper_def map_of_append_absent del: map_of_append)

theorem add_paper_contract_witness:
  "arxiv_id (metadata paper0) \<in> fst ` set (papers_cache store1)
   \<and> fst (add_paper paper0 store1) = False
   \<and> papers_cache (snd (add_paper paper0 store1)) = [(''test-sort-0'', paper0)]
   \<and> papers_file (snd (add_paper paper0 store1)) = papers_file store1
   \<and> arxiv_id (metadata paper1) \<notin> fst ` set (papers_cache store1)
   \<and> fst (add_paper paper1 store1) = True
   \<and> papers_cache (snd (add_paper paper1 store1))
       = [(''test-sort-0'', paper0), (''test-sort-1'', paper1)]
   \<and> papers_file (snd (add_paper paper1 store1))
       = Document (JObj [(''test-sort-0'', paper_dump paper0), (''test-sort-1'', paper_dump paper1)])"
proof -
  have k0: "arxiv_id (metadata paper0) = ''test-sort-0''"
    by (simp add: paper0_def new_paper_def test_metadata_def)
  have c: "papers_cache store1 = [(''test-sort-0'', paper0)]"
    by (simp add: store1_def add_paper_def empty_store_def Let_def logger_def
        save_cache_def save_to_file_def k0)
  have k1: "arxiv_id (metadata paper1) = ''test-sort-1''"
    by (simp add: paper1_def new_paper_def test_metadata_def)
  show ?thesis
    using add_paper_contract [of paper0 store1] add_paper_contract [of paper1 store1]
    by (simp add: c k0 k1)
qed

subsection \<open>Listing: filter, sort, paginate\<close>

lemma py_slice_nonneg:
  "0 \<le> a \<Longrightarrow> 0 \<le> l \<Longrightarrow> py_slice xs a (a + l) = take (nat l) (drop (nat a) xs)"
  by (auto simp: py_slice_def Let_def min_def nat_diff_distrib nat_add_distrib)




lemma by_category_filter:
  "by_category c ps = filter (\<lambda>p. truthy c \<longrightarrow> primary_category (metadata p) = the c) ps"
  by (simp add: by_category_def)

lemma by_date_from_filter:
  assumes "date_bound fi d = Inr lo"
  shows "by_date_from fi d ps =
     Inr (filter (\<lambda>p. case lo of None \<Rightarrow> True
                      | Some t \<Rightarrow> dt_key t \<le> dt_key (published_date (metadata p))) ps)"
proof (cases "truthy d")
  case False
  then have "lo = None"
    using assms by (simp add: date_bound_def)
  then show ?thesis
    using False by (simp add: by_date_from_def)
next
  case True
  then obtain t where "fi (the d) = Some t" and "lo = Some t"
    using assms by (auto simp: date_bound_def split: option.splits)
  then show ?thesis
    using True by (simp add: by_date_from_def)
qed

lemma by_date_to_filter:
  assumes "date_bound fi d = Inr hi"
  shows "by_date_to fi d ps =
     Inr (filter (\<lambda>p. case hi of None \<Rightarrow> True
                      | Some t \<Rightarrow> dt_key (published_date (metadata p)) \<le> dt_key t) ps)"
proof (cases "truthy d")
  case False
  then have "hi = None"
    using assms by (simp add: date_bound_def)
  then show ?thesis
    using False by (simp add: by_date_to_def)
next
  case True
  then obtain t where "fi (the d) = Some t" and "hi = Some t"
    using assms by (auto simp: date_bound_def split: option.splits)
  then show ?thesis
    using True by (simp add: by_date_to_def)
qed

lemma by_processed_filter:
  "by_processed flag ps =
     filter (\<lambda>p. case flag of None \<Rightarrow> True | Some b \<Rightarrow> processed p = b) ps"
  by (simp add: by_processed_def split: option.splits)

lemma by_search_filter:
  "by_search q ps =
     filter (\<lambda>p. truthy q \<longrightarrow>
                  sublist (lower (the q)) (lower (title (metadata p)))
                  \<or> sublist (lower (the q)) (lower (abstract (metadata p)))) ps"
  by (simp add: by_search_def py_in_def Let_def)

lemma apply_filters_spec:
  assumes "date_bound fi date_from = Inr lo" and "date_bound fi date_to = Inr hi"
  shows "apply_filters fi s category date_from date_to flag search
         = Inr (filter (spec_matches category lo hi flag search) (map snd (papers_cache s)))"
proof -
  have "apply_filters fi s category date_from date_to flag search
        = Inr (by_search search (by_processed flag
            (filter (\<lambda>p. case hi of None \<Rightarrow> True
                      | Some t \<Rightarrow> dt_key (published_date (metadata p)) \<le> dt_key t)
              (filter (\<lambda>p. case lo of None \<Rightarrow> True
                      | Some t \<Rightarrow> dt_key t \<le> dt_key (published_date (metadata p)))
                (by_category category (map snd (papers_cache s)))))))"
    by (simp add: apply_filters_def by_date_from_filter [OF assms(1)]
        by_date_to_filter [OF assms(2)])
  also have "\<dots> = Inr (filter (spec_matches category lo hi flag search)
                          (map snd (papers_cache s)))"
    unfolding by_category_filter by_processed_filter by_search_filter filter_filter
      spec_matches_def
    by (simp add: conj_ac cong: filter_cong)
  finally show ?thesis .
qed

lemma list_papers_spec:
  assumes "date_bound fi date_from = Inr lo" and "date_bound fi date_to = Inr hi"
  shows "list_papers fi s category date_from date_to flag search limit offset
         = Inr (py_slice (spec_listing s category lo hi flag search) offset (offset + limit))"
  by (simp add: list_papers_def apply_filters_spec [OF assms] spec_listing_def)



lemma store3_cache:
  "papers_cache store3 =
     [(''test-sort-0'', paper0), (''test-sort-1'', paper1), (''test-sort-2'', paper2)]"
  by (simp add: store3_def store1_def add_paper_def empty_store_def Let_def logger_def
      save_cache_def save_to_file_def paper0_def paper1_def paper2_def new_paper_def
      test_metadata_def)

lemma test_dates:
  "published_date (metadata paper0) = mk_date 2024 1 10"
  "published_date (metadata paper1) = mk_date 2024 1 20"
  "published_date (metadata paper2) = mk_date 2024 1 15"
  by (simp_all add: paper0_def paper1_def paper2_def new_paper_def test_metadata_def)


subsection \<open>Counting\<close>

lemma lower_examples:
  "lower ''zzz'' = ''zzz''" "lower ''Paper 0'' = ''paper 0''" "lower ''Paper 1'' = ''paper 1''"
  "lower ''Paper 2'' = ''paper 2''" "lower ''Abstract'' = ''abstract''"
  by code_simp+

lemma not_in_examples:
  "\<not> sublist ''zzz'' ''paper 0''" "\<not> sublist ''zzz'' ''paper 1''"
  "\<not> sublist ''zzz'' ''paper 2''" "\<not> sublist ''zzz'' ''abstract''"
  by code_simp+

lemma test_fields:
  "title (metadata paper0) = ''Paper 0''" "title (metadata paper1) = ''Paper 1''"
  "title (metadata paper2) = ''Paper 2''"
  "abstract (metadata paper0) = ''Abstract''" "abstract (metadata paper1) = ''Abstract''"
  "abstract (metadata paper2) = ''Abstract''"
  "primary_category (metadata paper0) = ''cs.AI''" "primary_category (metadata paper1) = ''cs.AI''"
  "primary_category (metadata paper2) = ''cs.AI''"
  "processed paper0 = False" "processed paper1 = False" "processed paper2 = False"
  by (simp_all add: paper0_def paper1_def paper2_def new_paper_def test_metadata_def)

lemma search_zzz: "by_search (Some ''zzz'') [paper0, paper1, paper2] = []"
  by (simp add: by_search_def truthy_def py_in_def test_fields lower_examples not_in_examples)

lemma from_12: "by_date_from test_fromisoformat (Some ''2024-01-12'') [paper0, paper1, paper2]
   = Inr [paper1, paper2]"
  by (simp add: by_date_from_def truthy_def test_fromisoformat_def test_dates dt_key_def
      mk_date_def)

text \<open>
  C5 as stated fails: \<open>count_papers\<close> takes a category and a processed flag only, so a
  search or a date filter that narrows the listing leaves the count as it was. With the
  three test papers, the search \<open>zzz\<close> selects no paper and the start date 2024-01-12
  selects two, while the count is three.
\<close>

theorem count_ignores_filters_counterexample:
  "apply_filters test_fromisoformat store3 None None None None (Some ''zzz'') = Inr []
   \<and> apply_filters test_fromisoformat store3 None (Some ''2024-01-12'') None None None
       = Inr [paper1, paper2]
   \<and> count_papers store3 None None = 3"
proof -
  have v: "by_category None (map snd (papers_cache store3)) = [paper0, paper1, paper2]"
    by (simp add: by_category_def truthy_def store3_cache)
  have n: "by_date_from test_fromisoformat None [paper0, paper1, paper2]
           = Inr [paper0, paper1, paper2]"
    by (simp add: by_date_from_def truthy_def)
  have a: "apply_filters test_fromisoformat store3 None None None None (Some ''zzz'') = Inr []"
    by (simp add: apply_filters_def v n by_date_to_def by_processed_def truthy_def search_zzz)
  have b: "apply_filters test_fromisoformat store3 None (Some ''2024-01-12'') None None None
           = Inr [paper1, paper2]"
    by (simp add: apply_filters_def v from_12 by_date_to_def by_processed_def by_search_def
        truthy_def)
  have c: "count_papers store3 None None = 3"
    by (simp add: count_papers_def v by_processed_def)
  from a b c show ?thesis by simp
qed

text \<open>
  C5, amended. For every category and processed flag, \<open>count_papers\<close> returns the number
  of papers that the filters of \<open>list_papers\<close> select when given that category and that
  flag and neither date bounds nor a search: category exact match and processed exact
  match. No pagination is applied, so a listing from offset \<open>0\<close> with a limit of at least
  the count has exactly that many papers.
\<close>

theorem count_papers_filters:
  "count_papers s category flag
     = length (filter (spec_matches category None None flag None) (map snd (papers_cache s)))
   \<and> apply_filters fromisoformat s category None None flag None
     = Inr (filter (spec_matches category None None flag None) (map snd (papers_cache s)))
   \<and> (int (count_papers s category flag) \<le> limit \<longrightarrow>
        (\<exists>ps. list_papers fromisoformat s category None None flag None limit 0 = Inr ps
              \<and> length ps = count_papers s category flag))"
proof -
  have b: "date_bound fromisoformat None = Inr None"
    by (simp add: date_bound_def truthy_def)
  have f: "apply_filters fromisoformat s category None None flag None
     = Inr (filter (spec_matches category None None flag None) (map snd (papers_cache s)))"
    by (rule apply_filters_spec [OF b b])
  have c: "count_papers s category flag
     = length (filter (spec_matches category None None flag None) (map snd (papers_cache s)))"
    unfolding count_papers_def by_category_filter by_processed_filter filter_filter
      spec_matches_def
    by (simp add: truthy_def conj_ac cong: filter_cong)
  have l: "length (spec_listing s category None None flag None) = count_papers s category flag"
    by (simp add: c spec_listing_def newest_first_def sort_reverse_def)
  have p: "int (count_papers s category flag) \<le> limit \<longrightarrow>
        (\<exists>ps. list_papers fromisoformat s category None None flag None limit 0 = Inr ps
              \<and> length ps = count_papers s category flag)"
  proof
    assume le: "int (count_papers s category flag) \<le> limit"
    then have pos: "0 \<le> limit" by simp
    have "py_slice (spec_listing s category None None flag None) 0 (0 + limit)
          = take (nat limit) (drop (nat 0) (spec_listing s category None None flag None))"
      using pos by (intro py_slice_nonneg) simp_all
    moreover have "count_papers s category flag \<le> nat limit"
      using le by simp
    ultimately have "length (py_slice (spec_listing s category None None flag None) 0 limit)
          = count_papers s category flag"
      using l by simp
    then show "\<exists>ps. list_papers fromisoformat s category None None flag None limit 0 = Inr ps
              \<and> length ps = count_papers s category flag"
      by (simp add: list_papers_spec [OF b b])
  qed
  from f c p show ?thesis by simp
qed

theorem count_papers_filters_witness:
  "count_papers store3 (Some ''cs.AI'') (Some False) = 3
   \<and> count_papers store3 (Some ''cs.CV'') None = 0
   \<and> int (count_papers store3 (Some ''cs.AI'') (Some False)) \<le> 50
   \<and> (\<exists>ps. list_papers test_fromisoformat store3 (Some ''cs.AI'') None None (Some False) None 50 0
             = Inr ps \<and> length ps = 3)"
proof -
  have a: "filter (spec_matches (Some ''cs.AI'') None None (Some False) None)
             (map snd (papers_cache store3)) = [paper0, paper1, paper2]"
    by (simp add: store3_cache spec_matches_def truthy_def test_fields)
  have b: "filter (spec_matches (Some ''cs.CV'') None None None None)
             (map snd (papers_cache store3)) = []"
    by (simp add: store3_cache spec_matches_def truthy_def test_fields)
  note t1 = count_papers_filters [of store3 "Some ''cs.AI''" "Some False" test_fromisoformat 50]
  note t2 = count_papers_filters [of store3 "Some ''cs.CV''" None test_fromisoformat 50]
  have c1: "count_papers store3 (Some ''cs.AI'') (Some False) = 3"
    using t1 by (simp add: a)
  have c2: "count_papers store3 (Some ''cs.CV'') None = 0"
    using t2 by (simp add: b)
  have l: "\<exists>ps. list_papers test_fromisoformat store3 (Some ''cs.AI'') None None (Some False)
             None 50 0 = Inr ps \<and> length ps = 3"
    using t1 unfolding c1 by simp
  from c1 c2 l show ?thesis by simp
qed

subsection \<open>Serialisation round trip\<close>

lemma read_digit_char: "n < 10 \<Longrightarrow> read_digit (digit_char n) = Some n"
  by (simp add: read_digit_def digit_char_def Let_def)

lemma read_digits_append:
  "read_digits a (xs @ ys) = Option.bind (read_digits a xs) (\<lambda>b. read_digits b ys)"
  by (induction xs arbitrary: a) (auto split: option.splits)

lemma length_show_fixed [simp]: "length (show_fixed k n) = k"
  by (induction k arbitrary: n) auto

lemma read_show_fixed: "read_digits a (show_fixed k n) = Some (a * 10 ^ k + n mod 10 ^ k)"
proof (induction k arbitrary: n a)
  case 0
  show ?case by simp
next
  case (Suc k)
  have "n div 10 mod 10 ^ k * 10 + n mod 10 = n mod (10 * 10 ^ k)"
    by (simp add: mod_mult2_eq mult.commute)
  then show ?case
    by (simp add: read_digits_append Suc read_digit_char algebra_simps)
qed

lemma read_show_fixed_small: "n < 10 ^ k \<Longrightarrow> read_digits 0 (show_fixed k n) = Some n"
  by (simp add: read_show_fixed)


lemma iso_shape:
  assumes "length a = 4" "length b = 2" "length c = 2" "length e = 2" "length f = 2"
    "length g = 2"
    and "s = a @ ''-'' @ b @ ''-'' @ c @ ''T'' @ e @ '':'' @ f @ '':'' @ g @ r"
  shows "length s = 19 + length r"
    and "s ! 4 = CHR ''-''" and "s ! 7 = CHR ''-''" and "s ! 10 = CHR ''T''"
    and "s ! 13 = CHR '':''" and "s ! 16 = CHR '':''"
    and "take 4 (drop 0 s) = a" and "take 2 (drop 5 s) = b" and "take 2 (drop 8 s) = c"
    and "take 2 (drop 11 s) = e" and "take 2 (drop 14 s) = f" and "take 2 (drop 17 s) = g"
    and "drop 19 s = r"
  using assms by (simp_all add: nth_append)

lemma parse_isoformat:
  assumes "valid_datetime d"
  shows "parse_datetime (isoformat d) = Some d"
proof -
  let ?a = "show_fixed 4 (year d)" and ?b = "show_fixed 2 (month d)"
  let ?c = "show_fixed 2 (day d)" and ?e = "show_fixed 2 (hour d)"
  let ?f = "show_fixed 2 (minute d)" and ?g = "show_fixed 2 (second d)"
  let ?r = "if microsecond d = 0 then [] else ''.'' @ show_fixed 6 (microsecond d)"
  let ?s = "isoformat d"
  have s: "?s = ?a @ ''-'' @ ?b @ ''-'' @ ?c @ ''T'' @ ?e @ '':'' @ ?f @ '':'' @ ?g @ ?r"
    by (simp add: isoformat_def)
  note sh = iso_shape [OF length_show_fixed length_show_fixed length_show_fixed
      length_show_fixed length_show_fixed length_show_fixed s]
  from assms have b: "year d < 10 ^ 4" "month d < 10 ^ 2" "day d < 10 ^ 2" "hour d < 10 ^ 2"
    "minute d < 10 ^ 2" "second d < 10 ^ 2" "microsecond d < 10 ^ 6"
    by (auto simp: valid_datetime_def days_in_month_def split: if_splits)
  have y: "digits_at 0 4 ?s = Some (year d)"
    unfolding digits_at_def sh by (rule read_show_fixed_small [OF b(1)])
  have mo: "digits_at 5 2 ?s = Some (month d)"
    unfolding digits_at_def sh by (rule read_show_fixed_small [OF b(2)])
  have da: "digits_at 8 2 ?s = Some (day d)"
    unfolding digits_at_def sh by (rule read_show_fixed_small [OF b(3)])
  have h: "digits_at 11 2 ?s = Some (hour d)"
    unfolding digits_at_def sh by (rule read_show_fixed_small [OF b(4)])
  have mi: "digits_at 14 2 ?s = Some (minute d)"
    unfolding digits_at_def sh by (rule read_show_fixed_small [OF b(5)])
  have se: "digits_at 17 2 ?s = Some (second d)"
    unfolding digits_at_def sh by (rule read_show_fixed_small [OF b(6)])
  have len: "length ?s = (if microsecond d = 0 then 19 else 26)"
    using sh(1) by simp
  have dot: "microsecond d \<noteq> 0 \<Longrightarrow> ?s ! 19 = CHR ''.''"
  proof -
    assume nz: "microsecond d \<noteq> 0"
    then have "19 < length ?s" using len by simp
    then have "?s ! 19 = hd (drop 19 ?s)" by (simp add: hd_drop_conv_nth)
    then show ?thesis using nz by (simp add: sh(13))
  qed
  have us: "microsecond d \<noteq> 0 \<Longrightarrow> digits_at 20 6 ?s = Some (microsecond d)"
  proof -
    assume nz: "microsecond d \<noteq> 0"
    have "drop 20 ?s = drop 1 (drop 19 ?s)" by simp
    also have "\<dots> = show_fixed 6 (microsecond d)" using nz by (simp add: sh(13))
    finally show ?thesis
      by (simp add: digits_at_def read_show_fixed_small [OF b(7)])
  qed
  have fin: "\<And>us. microsecond d = us \<Longrightarrow>
      (let dt = \<lparr>year = year d, month = month d, day = day d, hour = hour d,
                  minute = minute d, second = second d, microsecond = us\<rparr>
       in if valid_datetime dt then Some dt else None) = Some d"
    using assms by (cases d) (auto simp: Let_def)
  show ?thesis
  proof (cases "microsecond d = 0")
    case True
    then show ?thesis
      by (simp add: parse_datetime_def len sh(2-6) y mo da h mi se fin)
  next
    case False
    then show ?thesis
      by (simp add: parse_datetime_def len sh(2-6) y mo da h mi se dot us fin)
  qed
qed


lemma those_map_roundtrip:
  "(\<And>x. x \<in> set xs \<Longrightarrow> f (g x) = Some x) \<Longrightarrow> those (map (f \<circ> g) xs) = Some xs"
  by (induction xs) auto

lemma str_list_roundtrip: "list_validate str_validate (JArr (map JStr xs)) = Some xs"
  by (simp add: list_validate_def those_map_roundtrip str_validate_def)

lemma opt_str_roundtrip: "opt_validate str_validate (opt_dump JStr x) = Some x"
  by (cases x) (simp_all add: opt_validate_def opt_dump_def str_validate_def)

lemma datetime_roundtrip:
  "valid_datetime d \<Longrightarrow> datetime_validate (datetime_dump d) = Some d"
  by (simp add: datetime_validate_def datetime_dump_def parse_isoformat)

lemma opt_datetime_roundtrip:
  "(case x of None \<Rightarrow> True | Some d \<Rightarrow> valid_datetime d) \<Longrightarrow>
   opt_validate datetime_validate (opt_dump datetime_dump x) = Some x"
  by (cases x)
    (simp_all add: opt_validate_def opt_dump_def datetime_validate_def datetime_dump_def
      parse_isoformat)

lemma author_roundtrip: "author_validate (author_dump a) = Some a"
  by (cases a)
    (simp add: author_validate_def author_dump_def required_def defaulted_def
      opt_str_roundtrip str_validate_def)

lemma authors_roundtrip:
  "list_validate author_validate (JArr (map author_dump xs)) = Some xs"
  by (simp add: list_validate_def those_map_roundtrip author_roundtrip)

lemma metadata_roundtrip:
  assumes "valid_datetime (published_date m)"
    and "case updated_date m of None \<Rightarrow> True | Some d \<Rightarrow> valid_datetime d"
  shows "metadata_validate (metadata_dump m) = Some m"
  using assms
  by (cases m)
    (simp add: metadata_validate_def metadata_dump_def required_def defaulted_def
      opt_str_roundtrip str_validate_def str_list_roundtrip authors_roundtrip
      datetime_roundtrip opt_datetime_roundtrip)


lemma opt_float_roundtrip: "opt_validate float_validate (opt_dump JFloat x) = Some x"
  by (cases x) (simp_all add: opt_validate_def opt_dump_def float_validate_def)

lemma analysis_roundtrip:
  assumes "valid_analysis a"
  shows "analysis_validate now (analysis_dump a) = Some a"
  using assms
  by (cases a)
    (simp add: analysis_validate_def analysis_dump_def required_def defaulted_def
      opt_str_roundtrip str_validate_def str_list_roundtrip opt_float_roundtrip
      datetime_roundtrip valid_analysis_def)

lemma opt_analysis_roundtrip:
  assumes "case x of None \<Rightarrow> True | Some a \<Rightarrow> valid_analysis a"
  shows "opt_validate (analysis_validate now) (opt_dump analysis_dump x) = Some x"
proof (cases x)
  case None
  then show ?thesis by (simp add: opt_validate_def opt_dump_def)
next
  case (Some a)
  obtain kv where kv: "analysis_dump a = JObj kv"
    by (simp add: analysis_dump_def)
  have "opt_validate (analysis_validate now) (analysis_dump a)
        = map_option Some (analysis_validate now (analysis_dump a))"
    by (simp add: kv opt_validate_def)
  then show ?thesis
    using assms Some by (simp add: opt_dump_def analysis_roundtrip)
qed

lemma message_roundtrip:
  assumes "valid_datetime (timestamp c)"
  shows "message_validate now (message_dump c) = Some c"
  using assms
  by (cases c)
    (simp add: message_validate_def message_dump_def required_def defaulted_def
      str_validate_def datetime_roundtrip)

lemma messages_roundtrip:
  "list_all (\<lambda>c. valid_datetime (timestamp c)) xs \<Longrightarrow>
   list_validate (message_validate now) (JArr (map message_dump xs)) = Some xs"
  by (simp add: list_validate_def those_map_roundtrip message_roundtrip list_all_iff)

lemma paper_roundtrip:
  assumes "valid_paper p"
  shows "paper_validate now (paper_dump p) = Some p"
  using assms
  by (cases p)
    (simp add: paper_validate_def paper_dump_def required_def defaulted_def
      opt_str_roundtrip metadata_roundtrip opt_analysis_roundtrip messages_roundtrip
      bool_validate_def datetime_roundtrip opt_datetime_roundtrip valid_paper_def)





lemma valid_examples:
  "valid_paper paper0" "valid_paper paper1" "valid_paper paper2" "valid_paper sample_paper"
  by (simp_all add: valid_paper_def paper0_def paper1_def paper2_def sample_paper_def
      new_paper_def test_metadata_def sample_paper_metadata_def sample_ai_analysis_def
      sample_chat_message_def valid_analysis_def valid_datetime_def mk_date_def test_now_def
      days_in_month_def is_leap_def)



lemma load_items_ok:
  "list_all (\<lambda>(k, j). paper_validate now j \<noteq> None) items \<Longrightarrow>
   load_items now items c
     = Some (fold (\<lambda>(k, j). AList.update k (the (paper_validate now j))) items c)"
  by (induction items arbitrary: c) auto

lemma load_items_fail:
  "\<not> list_all (\<lambda>(k, j). paper_validate now j \<noteq> None) items \<Longrightarrow>
   load_items now items c = None"
  by (induction items arbitrary: c) (auto split: option.splits)

lemma paper_validate_null: "paper_validate now JNull = None"
  by (simp add: paper_validate_def)

text \<open>
  C4 as stated fails: a file with one valid record and one record that fails validation
  yields an empty store; the valid record is not loaded.
\<close>

theorem bad_record_drops_all_counterexample:
  "paper_validate test_now (paper_dump paper0) = Some paper0
   \<and> paper_validate test_now JNull = None
   \<and> papers_cache (data_store_init test_now broken_file) = []
   \<and> get_paper ''test-sort-0'' (data_store_init test_now broken_file) = None"
proof -
  have a: "paper_validate test_now (paper_dump paper0) = Some paper0"
    by (rule paper_roundtrip [OF valid_examples(1)])
  have "\<not> list_all (\<lambda>(k, j). paper_validate test_now j \<noteq> None)
            [(''test-sort-0'', paper_dump paper0), (''bad'', JNull)]"
    by (simp add: paper_validate_null)
  then have "load_items test_now [(''test-sort-0'', paper_dump paper0), (''bad'', JNull)] []
             = None"
    by (rule load_items_fail)
  then have "papers_cache (data_store_init test_now broken_file) = []"
    by (simp add: data_store_init_def ensure_file_exists_def broken_file_def load_cache_def
        logger_def)
  with a show ?thesis
    by (simp add: paper_validate_null get_paper_def)
qed

text \<open>
  C4, amended. When the store initialises from a backing file that holds a JSON object,
  loading is all or nothing: if every record validates, every record is loaded under its
  key and the number loaded is logged; if some record fails validation, one error is
  logged and the store is left empty, the valid records included. Either way the
  initialisation returns a store and leaves the file as it was.
\<close>

theorem load_all_or_nothing:
  "(list_all (\<lambda>(k, j). paper_validate now j \<noteq> None) items \<longrightarrow>
      papers_cache (data_store_init now (Document (JObj items)))
        = fold (\<lambda>(k, j). AList.update k (the (paper_validate now j))) items []
      \<and> logged (data_store_init now (Document (JObj items)))
        = [LogLoaded (length (papers_cache (data_store_init now (Document (JObj items)))))])
   \<and> (\<not> list_all (\<lambda>(k, j). paper_validate now j \<noteq> None) items \<longrightarrow>
      papers_cache (data_store_init now (Document (JObj items))) = []
      \<and> logged (data_store_init now (Document (JObj items))) = [LogLoadFailed])
   \<and> papers_file (data_store_init now (Document (JObj items))) = Document (JObj items)"
  by (cases "list_all (\<lambda>(k, j). paper_validate now j \<noteq> None) items")
    (simp_all add: data_store_init_def ensure_file_exists_def load_cache_def logger_def
      load_items_ok load_items_fail)

theorem load_all_or_nothing_witness:
  "list_all (\<lambda>(k, j). paper_validate test_now j \<noteq> None)
     [(''test-sort-0'', paper_dump paper0), (''test-sort-1'', paper_dump paper1)]
   \<and> papers_cache (data_store_init test_now (Document (JObj
        [(''test-sort-0'', paper_dump paper0), (''test-sort-1'', paper_dump paper1)])))
      = [(''test-sort-0'', paper0), (''test-sort-1'', paper1)]
   \<and> \<not> list_all (\<lambda>(k, j). paper_validate test_now j \<noteq> None)
     [(''test-sort-0'', paper_dump paper0), (''bad'', JNull)]
   \<and> papers_cache (data_store_init test_now (Document (JObj
        [(''test-sort-0'', paper_dump paper0), (''bad'', JNull)]))) = []
   \<and> logged (data_store_init test_now (Document (JObj
        [(''test-sort-0'', paper_dump paper0), (''bad'', JNull)]))) = [LogLoadFailed]"
proof -
  have v: "paper_validate test_now (paper_dump paper0) = Some paper0"
    "paper_validate test_now (paper_dump paper1) = Some paper1"
    by (rule paper_roundtrip [OF valid_examples(1)], rule paper_roundtrip [OF valid_examples(2)])
  show ?thesis
    using load_all_or_nothing [of test_now
        "[(''test-sort-0'', paper_dump paper0), (''test-sort-1'', paper_dump paper1)]"]
      load_all_or_nothing [of test_now "[(''test-sort-0'', paper_dump paper0), (''bad'', JNull)]"]
    by (simp add: v paper_validate_null)
qed

subsection \<open>Analysis generation\<close>

lemma split_from_nonempty: "split_from sep acc s \<noteq> []"
  by (induction sep acc s rule: split_from.induct) auto

lemma split_from_two:
  "sep \<noteq> [] \<Longrightarrow> sublist sep s \<Longrightarrow> 2 \<le> length (split_from sep acc s)"
proof (induction sep acc s rule: split_from.induct)
  case (1 sep acc)
  then show ?case by simp
next
  case (2 sep acc c cs)
  show ?case
  proof (cases "prefix sep (c # cs)")
    case True
    have "split_from sep [] (drop (length sep) (c # cs)) \<noteq> []"
      by (rule split_from_nonempty)
    then have "1 \<le> length (split_from sep [] (drop (length sep) (c # cs)))"
      by (cases "split_from sep [] (drop (length sep) (c # cs))") simp_all
    with True 2(3) show ?thesis by simp
  next
    case False
    with 2(4) have "sublist sep cs"
      using 2(3) by (cases sep) (auto simp: sublist_Cons_right)
    with 2(2) [OF _ 2(3)] False show ?thesis by simp
  qed
qed





lemma fence_pieces:
  "py_in ''```json'' reply \<Longrightarrow> 2 \<le> length (py_split ''```json'' reply)"
  "py_in ''```'' reply \<Longrightarrow> 2 \<le> length (py_split ''```'' reply)"
  by (simp_all add: py_split_def py_in_def split_from_two)






subsection \<open>Chat preconditions\<close>

text \<open>
  C7. A chat or summary request on a paper that is in the store but has no extracted
  text (none, or the empty string) fails with status 400, "not yet processed", before
  anything else happens: the state is unchanged, so no request went to the generation
  backend. An unknown identifier gives status 404, and the two conditions differ.
\<close>

theorem chat_requires_text:
  assumes "get_paper k (data_store w) = Some p" and "\<not> truthy (extracted_text p)"
  shows "chat_with_paper S k message model w = (Inl not_extracted, w)
       \<and> generate_paper_summary S k w = (Inl (Http not_extracted), w)
       \<and> llm_calls (snd (chat_with_paper S k message model w)) = llm_calls w
       \<and> llm_calls (snd (generate_paper_summary S k w)) = llm_calls w
       \<and> (get_paper k' (data_store w) = None \<longrightarrow>
            chat_with_paper S k' message model w = (Inl not_found, w)
            \<and> generate_paper_summary S k' w = (Inl (Http not_found), w))
       \<and> not_extracted \<noteq> not_found"
  using assms
  by (simp add: chat_with_paper_def generate_paper_summary_def not_extracted_def not_found_def)

theorem chat_requires_text_witness:
  "get_paper ''test-sort-0'' (data_store (test_world store3)) = Some paper0
   \<and> \<not> truthy (extracted_text paper0)
   \<and> chat_with_paper test_services ''test-sort-0'' ''Hi'' None (test_world store3)
       = (Inl not_extracted, test_world store3)
   \<and> generate_paper_summary test_services ''test-sort-0'' (test_world store3)
       = (Inl (Http not_extracted), test_world store3)
   \<and> get_paper ''missing'' (data_store (test_world store3)) = None
   \<and> chat_with_paper test_services ''missing'' ''Hi'' None (test_world store3)
       = (Inl not_found, test_world store3)"
proof -
  have g: "get_paper ''test-sort-0'' (data_store (test_world store3)) = Some paper0"
    by (simp add: get_paper_def test_world_def store3_cache)
  have t: "\<not> truthy (extracted_text paper0)"
    by (simp add: truthy_def paper0_def new_paper_def)
  have m: "get_paper ''missing'' (data_store (test_world store3)) = None"
    by (simp add: get_paper_def test_world_def store3_cache)
  show ?thesis
    using chat_requires_text [OF g t, of test_services "''Hi''" None "''missing''"] g t m
    by simp
qed

subsection \<open>Streaming failures\<close>






subsection \<open>Batch fetching and processing\<close>






























end
